theory Spec2Isabelle
  imports Main
begin

section \<open>The Juman tokenizer adapter of bedoner (\<^verbatim>\<open>bedoner/lang/juman/__init__.py\<close>)\<close>

text \<open>
  The module is glue between a morphological analyzer (pyknp's \<^verbatim>\<open>Juman\<close>) and a host
  framework (spaCy's \<^verbatim>\<open>Doc\<close>, \<^verbatim>\<open>Token\<close>, \<^verbatim>\<open>Language\<close>). The functions of the module are
  embedded as they are written. What the module calls but does not define is handled so:
  \<^item> the analyzer, its constructor and the preprocessing function are parameters; each is
    a computation on an outside world \<open>'w\<close> that returns a value or raises, and the
    preprocessing function carries the truth value Python gives it;
  \<^item> the constant \<^verbatim>\<open>KEY_FSTRING\<close> of \<^verbatim>\<open>bedoner.consts\<close> is a parameter;
  \<^item> the host's document constructor, token attributes and extension registry are
    embedded by their behaviour as far as the module uses them.
  A Python \<^verbatim>\<open>str\<close> is a \<open>string\<close>: the sequence of its UTF-8 bytes, on which concatenation,
  equality and emptiness agree with Python's.
\<close>

subsection \<open>Exceptions and effects\<close>

text \<open>
  An exception is a value. \<open>ValueError\<close> and \<open>AttributeError\<close> are the two the host
  framework raises on the paths the module takes; \<open>Raised e\<close> is any other exception,
  \<open>e\<close> being whatever the analyzer or the preprocessing function raised.
\<close>

datatype 'e exc = ValueError | AttributeError | Raised 'e

text \<open>A call that may raise and may change the outside world.\<close>

type_synonym ('e, 'a, 'w) eff = "'w \<Rightarrow> ('e exc + 'a) \<times> 'w"

subsection \<open>Python values stored as token extensions\<close>

datatype pyval = PyBool bool | PyStr string

subsection \<open>The analyzer (pyknp)\<close>

text \<open>
  A \<^verbatim>\<open>Morpheme\<close> as far as \<^verbatim>\<open>detailed_tokens\<close> reads it. \<open>genkei\<close> is optional:
  \<open>None\<close> is Python's \<^verbatim>\<open>None\<close>, \<open>Some []\<close> the empty string.
\<close>

record Morpheme =
  midasi :: string
  hinsi :: string
  bunrui :: string
  genkei :: "string option"
  fstring :: string

text \<open>
  A \<^verbatim>\<open>Juman\<close> object: \<open>analysis\<close> is \<^verbatim>\<open>self.tokenizer.analysis(text).mrph_list()\<close>, the
  ordered morphological units of the text, or the exception the analyzer raises.
\<close>

record ('e, 'w) Juman =
  analysis :: "string \<Rightarrow> ('e, Morpheme list, 'w) eff"

subsection \<open>The host framework (spaCy)\<close>

text \<open>
  A token: \<^verbatim>\<open>token.text\<close>, whether a space follows it, \<^verbatim>\<open>token.lemma_\<close>, \<^verbatim>\<open>token.tag_\<close>
  and the values of its custom extensions (\<^verbatim>\<open>token._\<close>).
\<close>

record Token =
  token_text :: string
  whitespace :: bool
  token_lemma :: string
  token_tag :: string
  underscore :: "string \<rightharpoonup> pyval"

record 'v Doc =
  doc_vocab :: 'v
  tokens :: "Token list"

text \<open>
  \<^verbatim>\<open>Doc(vocab, words=words, spaces=spaces)\<close>: one token per word, in order, each with its
  space flag; a lemma that has not been assigned reads back as the text of the token. The
  host raises \<^verbatim>\<open>ValueError\<close> when the two lists differ in length, and when a word is the
  empty string.
\<close>

definition new_token :: "string \<Rightarrow> bool \<Rightarrow> Token" where
  "new_token word has_space =
     \<lparr>token_text = word, whitespace = has_space, token_lemma = word, token_tag = [],
      underscore = Map.empty\<rparr>"

definition Doc_init :: "'v \<Rightarrow> string list \<Rightarrow> bool list \<Rightarrow> 'e exc + 'v Doc" where
  "Doc_init v words spaces =
     (if length spaces \<noteq> length words then Inl ValueError
      else if [] \<in> set words then Inl ValueError
      else Inr \<lparr>doc_vocab = v, tokens = map2 new_token words spaces\<rparr>)"

text \<open>\<^verbatim>\<open>doc.text\<close>: the token texts, each followed by a space where its flag says so.\<close>

definition Doc_text :: "'v Doc \<Rightarrow> string" where
  "Doc_text doc =
     concat (map (\<lambda>t. token_text t @ (if whitespace t then '' '' else [])) (tokens doc))"

text \<open>
  The registry of token extensions is global to the host: a name is registered with its
  default value. \<^verbatim>\<open>Token.set_extension(name, default=d, force=f)\<close> raises \<^verbatim>\<open>ValueError\<close>
  when the name is registered and \<open>f\<close> is false, and (over)writes the entry otherwise.
\<close>

type_synonym registry = "string \<rightharpoonup> pyval"

definition set_extension :: "string \<Rightarrow> pyval \<Rightarrow> bool \<Rightarrow> registry \<Rightarrow> ('e exc + unit) \<times> registry" where
  "set_extension name dflt force reg =
     (if \<not> force \<and> reg name \<noteq> None then (Inl ValueError, reg)
      else (Inr (), reg(name \<mapsto> dflt)))"

text \<open>
  \<^verbatim>\<open>token._.set(name, value)\<close> and \<^verbatim>\<open>token._.get(name)\<close>: both raise \<^verbatim>\<open>AttributeError\<close> for
  a name that is not registered; \<open>get\<close> gives the default of a name never set on the token.
\<close>

definition underscore_set :: "registry \<Rightarrow> string \<Rightarrow> pyval \<Rightarrow> Token \<Rightarrow> 'e exc + Token" where
  "underscore_set reg name v tok =
     (case reg name of
        None \<Rightarrow> Inl AttributeError
      | Some d \<Rightarrow> Inr (tok\<lparr>underscore := (underscore tok)(name \<mapsto> v)\<rparr>))"

definition underscore_get :: "registry \<Rightarrow> string \<Rightarrow> Token \<Rightarrow> 'e exc + pyval" where
  "underscore_get reg name tok =
     (case reg name of
        None \<Rightarrow> Inl AttributeError
      | Some d \<Rightarrow> Inr (case underscore tok name of None \<Rightarrow> d | Some v \<Rightarrow> v))"

text \<open>The state a call runs in: the host's registry and the outside world.\<close>

record 'w state =
  token_extensions :: registry
  world :: 'w

text \<open>\<^verbatim>\<open>nlp\<close>, as far as the adapter reads it, and \<^verbatim>\<open>cls\<close> with its \<^verbatim>\<open>create_vocab\<close>.\<close>

record 'v Language =
  nlp_vocab :: 'v

record 'v Defaults =
  create_vocab :: "'v Language option \<Rightarrow> 'v"

subsection \<open>The module\<close>

text \<open>\<^verbatim>\<open>ShortUnitWord = namedtuple("ShortUnitWord", ["surface", "lemma", "pos", "fstring"])\<close>\<close>

datatype ShortUnitWord =
  ShortUnitWord (surface: string) (lemma_w: string) (pos: string) (fstring_w: string)

text \<open>\<^verbatim>\<open>serialization_fields = ["preprocessor", "juman_kwargs"]\<close>\<close>

definition serialization_fields :: "string list" where
  "serialization_fields = [''preprocessor'', ''juman_kwargs'']"

text \<open>
  A callable object, as \<^verbatim>\<open>__call__\<close> uses the preprocessor: its truth value
  (\<^verbatim>\<open>bool(p)\<close>: true for every plain function, false for an object whose class defines
  \<^verbatim>\<open>__bool__\<close> returning \<^verbatim>\<open>False\<close> or \<^verbatim>\<open>__len__\<close> returning 0) and what calling it on a text
  does.
\<close>

record ('e, 'w) Callable =
  py_bool :: bool
  py_call :: "string \<Rightarrow> ('e, string, 'w) eff"

record ('v, 'e, 'w) Tokenizer =
  vocab :: 'v
  tokenizer :: "('e, 'w) Juman"
  key_fstring :: string
  preprocessor :: "('e, 'w) Callable option"

text \<open>
  \<^verbatim>\<open>Tokenizer.__init__(self, cls, nlp, juman_kwargs, preprocessor)\<close>. \<open>Juman_new\<close> is the
  analyzer's constructor, applied to the keyword arguments (a dict, here the list of its
  items); \<^verbatim>\<open>Juman()\<close> is \<open>Juman_new []\<close>. A dict is falsy when it is empty.
\<close>

definition Tokenizer_init ::
  "string \<Rightarrow> ((string \<times> string) list \<Rightarrow> ('e, ('e, 'w) Juman, 'w) eff) \<Rightarrow>
   'v Defaults \<Rightarrow> 'v Language option \<Rightarrow> (string \<times> string) list option \<Rightarrow>
   ('e, 'w) Callable option \<Rightarrow>
   'w state \<Rightarrow> ('e exc + ('v, 'e, 'w) Tokenizer) \<times> 'w state" where
  "Tokenizer_init KEY_FSTRING Juman_new cls nlp juman_kwargs preprocessor' st =
     (let vocab' = (case nlp of Some n \<Rightarrow> nlp_vocab n | None \<Rightarrow> create_vocab cls nlp) in
      case (case juman_kwargs of
              None \<Rightarrow> Juman_new []
            | Some kw \<Rightarrow> if kw \<noteq> [] then Juman_new kw else Juman_new []) (world st) of
        (Inl e, w1) \<Rightarrow> (Inl e, st\<lparr>world := w1\<rparr>)
      | (Inr juman, w1) \<Rightarrow>
          (case set_extension KEY_FSTRING (PyBool False) True (token_extensions st) of
             (Inl e, reg) \<Rightarrow> (Inl e, \<lparr>token_extensions = reg, world = w1\<rparr>)
           | (Inr u, reg) \<Rightarrow>
               (Inr \<lparr>vocab = vocab', tokenizer = juman, key_fstring = KEY_FSTRING,
                     preprocessor = preprocessor'\<rparr>,
                \<lparr>token_extensions = reg, world = w1\<rparr>)))"

text \<open>
  \<^verbatim>\<open>m.genkei or surface\<close>: Python's \<^verbatim>\<open>or\<close> gives its right operand when the left one is
  falsy, that is \<^verbatim>\<open>None\<close> or the empty string.
\<close>

definition genkei_or :: "string option \<Rightarrow> string \<Rightarrow> string" where
  "genkei_or g surface' =
     (case g of None \<Rightarrow> surface' | Some s \<Rightarrow> if s = [] then surface' else s)"

text \<open>The loop of \<^verbatim>\<open>detailed_tokens\<close>, \<open>words\<close> being the list it appends to.\<close>

fun detailed_loop :: "Morpheme list \<Rightarrow> ShortUnitWord list \<Rightarrow> ShortUnitWord list" where
  "detailed_loop [] words = words"
| "detailed_loop (m # ml) words =
     (let surface' = midasi m;
          pos' = hinsi m @ ''/'' @ bunrui m;
          lemma' = genkei_or (genkei m) surface'
      in detailed_loop ml (words @ [ShortUnitWord surface' lemma' pos' (fstring m)]))"

definition detailed_tokens ::
  "('v, 'e, 'w) Tokenizer \<Rightarrow> string \<Rightarrow> ('e, ShortUnitWord list, 'w) eff" where
  "detailed_tokens self text' w =
     (case analysis (tokenizer self) text' w of
        (Inl e, w') \<Rightarrow> (Inl e, w')
      | (Inr ml, w') \<Rightarrow> (Inr (detailed_loop ml []), w'))"

text \<open>
  The loop of \<^verbatim>\<open>__call__\<close> over \<^verbatim>\<open>zip(doc, dtokens)\<close>: it stops at the end of the shorter
  list, and the tokens it has not reached stay as they are.
\<close>

fun annotate :: "registry \<Rightarrow> string \<Rightarrow> Token list \<Rightarrow> ShortUnitWord list \<Rightarrow> 'e exc + Token list" where
  "annotate reg key [] dtokens = Inr []"
| "annotate reg key (token # rest) [] = Inr (token # rest)"
| "annotate reg key (token # rest) (dtoken # dtokens) =
     (case underscore_set reg key (PyStr (fstring_w dtoken))
             (token\<lparr>token_lemma := lemma_w dtoken, token_tag := pos dtoken\<rparr>) of
        Inl e \<Rightarrow> Inl e
      | Inr token' \<Rightarrow>
          (case annotate reg key rest dtokens of
             Inl e \<Rightarrow> Inl e
           | Inr rest' \<Rightarrow> Inr (token' # rest')))"

text \<open>
  \<^verbatim>\<open>Tokenizer.__call__(self, text)\<close>. The guard \<^verbatim>\<open>if self.preprocessor:\<close> tests the truth
  value of the attribute: \<^verbatim>\<open>None\<close> is false, a callable has the truth value of its own.
\<close>

definition call ::
  "('v, 'e, 'w) Tokenizer \<Rightarrow> string \<Rightarrow> 'w state \<Rightarrow> ('e exc + 'v Doc) \<times> 'w state" where
  "call self text0 st =
     (case (case preprocessor self of
              None \<Rightarrow> (Inr text0, world st)
            | Some p \<Rightarrow>
                if py_bool p then py_call p text0 (world st) else (Inr text0, world st)) of
        (Inl e, w1) \<Rightarrow> (Inl e, st\<lparr>world := w1\<rparr>)
      | (Inr text1, w1) \<Rightarrow>
          (case detailed_tokens self text1 w1 of
             (Inl e, w2) \<Rightarrow> (Inl e, st\<lparr>world := w2\<rparr>)
           | (Inr dtokens, w2) \<Rightarrow>
               (let words = map surface dtokens;
                    spaces = replicate (length words) False
                in case Doc_init (vocab self) words spaces of
                     Inl e \<Rightarrow> (Inl e, st\<lparr>world := w2\<rparr>)
                   | Inr doc \<Rightarrow>
                       (case annotate (token_extensions st) (key_fstring self)
                               (tokens doc) dtokens of
                          Inl e \<Rightarrow> (Inl e, st\<lparr>world := w2\<rparr>)
                        | Inr toks \<Rightarrow> (Inr (doc\<lparr>tokens := toks\<rparr>), st\<lparr>world := w2\<rparr>)))))"

text \<open>\<^verbatim>\<open>Defaults.create_tokenizer(cls, nlp, juman_kwargs, preprocessor)\<close>\<close>

definition create_tokenizer ::
  "string \<Rightarrow> ((string \<times> string) list \<Rightarrow> ('e, ('e, 'w) Juman, 'w) eff) \<Rightarrow>
   'v Defaults \<Rightarrow> 'v Language option \<Rightarrow> (string \<times> string) list option \<Rightarrow>
   ('e, 'w) Callable option \<Rightarrow>
   'w state \<Rightarrow> ('e exc + ('v, 'e, 'w) Tokenizer) \<times> 'w state" where
  "create_tokenizer KEY_FSTRING Juman_new cls nlp juman_kwargs preprocessor' =
     Tokenizer_init KEY_FSTRING Juman_new cls nlp juman_kwargs preprocessor'"

text \<open>\<^verbatim>\<open>class Japanese(Language)\<close> and its \<^verbatim>\<open>make_doc\<close>.\<close>

record ('v, 'e, 'w) Japanese = "'v Language" +
  nlp_tokenizer :: "('v, 'e, 'w) Tokenizer"

definition make_doc ::
  "('v, 'e, 'w) Japanese \<Rightarrow> string \<Rightarrow> 'w state \<Rightarrow> ('e exc + 'v Doc) \<times> 'w state" where
  "make_doc self text0 = call (nlp_tokenizer self) text0"

text \<open>
  \<^verbatim>\<open>pickle_japanese(instance)\<close> returns the class and the arguments to call it with: the
  class \<^verbatim>\<open>Japanese\<close> and the empty tuple.
\<close>

datatype pyclass = Japanese_class

definition pickle_japanese :: "'j \<Rightarrow> pyclass \<times> pyval list" where
  "pickle_japanese inst = (Japanese_class, [])"

text \<open>
  \<^verbatim>\<open>copy_reg.pickle(Japanese, pickle_japanese)\<close> makes the function the reducer of the
  class: pickling an instance stores what the reducer returns for it, and unpickling
  calls the stored class on the stored arguments. \<open>construct\<close> is the host's constructor
  of a class from its arguments.
\<close>

definition dumps :: "'j \<Rightarrow> pyclass \<times> pyval list" where
  "dumps inst = pickle_japanese inst"

definition loads :: "(pyclass \<Rightarrow> pyval list \<Rightarrow> 'j) \<Rightarrow> pyclass \<times> pyval list \<Rightarrow> 'j" where
  "loads construct pickled = construct (fst pickled) (snd pickled)"

subsection \<open>What the specification speaks of\<close>

text \<open>
  The (possibly preprocessed) text, as the guard of \<^verbatim>\<open>__call__\<close> decides it: the output of
  the preprocessing function when one is configured and true, the input text itself when
  none is configured or the configured one is false.
\<close>

definition preprocessed :: "('v, 'e, 'w) Tokenizer \<Rightarrow> string \<Rightarrow> ('e, string, 'w) eff" where
  "preprocessed self text0 w =
     (case preprocessor self of
        None \<Rightarrow> (Inr text0, w)
      | Some p \<Rightarrow> if py_bool p then py_call p text0 w else (Inr text0, w))"

text \<open>The morphological units the analyzer reports for the (possibly preprocessed) text.\<close>

definition reported_units ::
  "('v, 'e, 'w) Tokenizer \<Rightarrow> string \<Rightarrow> ('e, Morpheme list, 'w) eff" where
  "reported_units self text0 w =
     (case preprocessed self text0 w of
        (Inl e, w1) \<Rightarrow> (Inl e, w1)
      | (Inr text1, w1) \<Rightarrow> analysis (tokenizer self) text1 w1)"

text \<open>The token the adapter is to make of one morphological unit, extension key given.\<close>

definition token_of :: "string \<Rightarrow> Morpheme \<Rightarrow> Token" where
  "token_of key m =
     \<lparr>token_text = midasi m, whitespace = False,
      token_lemma = genkei_or (genkei m) (midasi m),
      token_tag = hinsi m @ ''/'' @ bunrui m,
      underscore = [key \<mapsto> PyStr (fstring m)]\<rparr>"

subsection \<open>A concrete analyzer, preprocessing function and adapter\<close>

text \<open>
  The outside world of the examples is the list of the texts the analyzer has been
  invoked on, oldest first; an exception of theirs is its message. The analyzer knows one
  sentence, of four units: the two of the specification's example (in Latin letters), one
  whose dictionary form is the empty string and one that has none.
\<close>

definition demo_units :: "Morpheme list" where
  "demo_units =
     [\<lparr>midasi = ''Tokyo'', hinsi = ''meishi'', bunrui = ''chimei'',
       genkei = Some ''Tokyo'', fstring = ''<chimei>''\<rparr>,
      \<lparr>midasi = ''desu'', hinsi = ''hanteishi'', bunrui = ''*'',
       genkei = Some ''da'', fstring = ''NIL''\<rparr>,
      \<lparr>midasi = ''!'', hinsi = ''tokushu'', bunrui = ''kigou'',
       genkei = Some [], fstring = ''<kigou>''\<rparr>,
      \<lparr>midasi = ''?'', hinsi = ''miteigi'', bunrui = ''sonota'',
       genkei = None, fstring = ''<miteigi>''\<rparr>]"

definition demo_juman :: "(string, string list) Juman" where
  "demo_juman =
     \<lparr>analysis = (\<lambda>t log.
        (if t = ''Tokyodesu!?'' then Inr demo_units else Inl (Raised ''unknown sentence''),
         log @ [t]))\<rparr>"

text \<open>
  The preprocessing function removes the spaces and raises on the empty text. It is
  configured once as a plain function, and once as the method of an object that is false.
\<close>

definition demo_strip :: "string \<Rightarrow> (string, string, string list) eff" where
  "demo_strip t log =
     (if t = [] then Inl (Raised ''empty text'') else Inr (filter (\<lambda>c. c \<noteq> CHR '' '') t),
      log)"

definition demo_preprocessor :: "(string, string list) Callable" where
  "demo_preprocessor = \<lparr>py_bool = True, py_call = demo_strip\<rparr>"


text \<open>The analyzer's constructor raises on any option but \<open>command\<close>.\<close>

definition demo_Juman_new ::
  "(string \<times> string) list \<Rightarrow> (string, (string, string list) Juman, string list) eff" where
  "demo_Juman_new kw log =
     (if list_all (\<lambda>(k, v). k = ''command'') kw then Inr demo_juman
      else Inl (Raised ''unexpected keyword argument''),
      log)"

definition demo_tokenizer :: "(unit, string, string list) Tokenizer" where
  "demo_tokenizer =
     \<lparr>vocab = (), tokenizer = demo_juman, key_fstring = ''juman_fstring'',
      preprocessor = Some demo_preprocessor\<rparr>"



definition demo_state :: "string list state" where
  "demo_state = \<lparr>token_extensions = [''juman_fstring'' \<mapsto> PyBool False], world = []\<rparr>"

definition demo_doc :: "unit Doc" where
  "demo_doc = \<lparr>doc_vocab = (), tokens = map (token_of ''juman_fstring'') demo_units\<rparr>"

section \<open>Properties\<close>

subsection \<open>The two loops\<close>

lemma detailed_loop_eq:
  "detailed_loop ml words =
     words @ map (\<lambda>m. ShortUnitWord (midasi m) (genkei_or (genkei m) (midasi m))
                        (hinsi m @ ''/'' @ bunrui m) (fstring m)) ml"
  by (induction ml arbitrary: words) (simp_all add: Let_def)

lemma surface_detailed_loop: "map surface (detailed_loop ml []) = map midasi ml"
  by (simp add: detailed_loop_eq comp_def)

lemma annotate_length:
  "annotate reg key toks ds = Inr toks' \<Longrightarrow> length toks' = length toks"
proof (induction toks arbitrary: ds toks')
  case Nil
  then show ?case by simp
next
  case (Cons t ts)
  then show ?case
    by (cases ds) (auto split: sum.splits)
qed

text \<open>On the fresh tokens of the document, the loop of \<open>call\<close> succeeds when the key is
  registered, and raises at the first token when it is not.\<close>

lemma annotate_fresh_ok:
  "reg key = Some d \<Longrightarrow>
   annotate reg key (map2 new_token (map midasi ml) (replicate (length ml) False))
     (detailed_loop ml []) = Inr (map (token_of key) ml)"
  by (induction ml)
     (auto simp: detailed_loop_eq new_token_def token_of_def underscore_set_def)

lemma annotate_fresh_unregistered:
  "reg key = None \<Longrightarrow> ml \<noteq> [] \<Longrightarrow>
   annotate reg key (map2 new_token (map midasi ml) (replicate (length ml) False))
     (detailed_loop ml []) = Inl AttributeError"
  by (cases ml) (auto simp: detailed_loop_eq underscore_set_def)

subsection \<open>What a call does\<close>

text \<open>
  A call raises what preprocessing or analysis raises; on the units \<open>ml\<close> it raises the
  host's \<open>ValueError\<close> when a surface is empty and the host's \<open>AttributeError\<close> when there
  is a token and the key is not registered; otherwise it returns the document of the
  tokens made of the units, in order.
\<close>

lemma call_eq:
  fixes self :: "('v, 'e, 'w) Tokenizer"
  shows "call self text0 st =
     (case reported_units self text0 (world st) of
        (Inl e, w2) \<Rightarrow> (Inl e, st\<lparr>world := w2\<rparr>)
      | (Inr ml, w2) \<Rightarrow>
          (if [] \<in> set (map midasi ml) then (Inl ValueError, st\<lparr>world := w2\<rparr>)
           else if ml \<noteq> [] \<and> token_extensions st (key_fstring self) = None
             then (Inl AttributeError, st\<lparr>world := w2\<rparr>)
           else (Inr \<lparr>doc_vocab = vocab self,
                       tokens = map (token_of (key_fstring self)) ml\<rparr>,
                 st\<lparr>world := w2\<rparr>)))"
proof (cases "preprocessed self text0 (world st)")
  case (Pair r1 w1)
  show ?thesis
  proof (cases r1)
    case (Inl e)
    with Pair show ?thesis
      by (simp add: call_def reported_units_def preprocessed_def)
  next
    case (Inr text1)
    note r1 = this
    obtain r2 w2 where a: "analysis (tokenizer self) text1 w1 = (r2, w2)"
      by (cases "analysis (tokenizer self) text1 w1")
    show ?thesis
    proof (cases r2)
      case (Inl e)
      with Pair r1 a show ?thesis
        by (simp add: call_def reported_units_def preprocessed_def detailed_tokens_def)
    next
      case (Inr ml)
      have c: "call self text0 st =
        (case Doc_init (vocab self) (map midasi ml) (replicate (length ml) False) of
           Inl e \<Rightarrow> (Inl e, st\<lparr>world := w2\<rparr>)
         | Inr doc \<Rightarrow>
             (case annotate (token_extensions st) (key_fstring self) (tokens doc)
                     (detailed_loop ml []) of
                Inl e \<Rightarrow> (Inl e, st\<lparr>world := w2\<rparr>)
              | Inr toks \<Rightarrow> (Inr (doc\<lparr>tokens := toks\<rparr>), st\<lparr>world := w2\<rparr>)))"
        using Pair r1 a Inr
        by (simp add: call_def preprocessed_def detailed_tokens_def
              surface_detailed_loop Let_def)
      have r: "reported_units self text0 (world st) = (Inr ml, w2)"
        using Pair r1 a Inr by (simp add: reported_units_def)
      show ?thesis
      proof (cases "[] \<in> set (map midasi ml)")
        case True
        then show ?thesis by (simp add: c r Doc_init_def)
      next
        case False
        note ne = this
        show ?thesis
        proof (cases "token_extensions st (key_fstring self)")
          case None
          show ?thesis
          proof (cases "ml = []")
            case True
            then show ?thesis by (simp add: c r Doc_init_def)
          next
            case False
            have "annotate (token_extensions st) (key_fstring self)
                    (map2 new_token (map midasi ml) (replicate (length ml) False))
                    (detailed_loop ml []) = (Inl AttributeError :: 'e exc + Token list)"
              using None False by (rule annotate_fresh_unregistered)
            with ne None False show ?thesis
              by (simp add: c r Doc_init_def)
          qed
        next
          case (Some d)
          have "annotate (token_extensions st) (key_fstring self)
                  (map2 new_token (map midasi ml) (replicate (length ml) False))
                  (detailed_loop ml []) =
                (Inr (map (token_of (key_fstring self)) ml) :: 'e exc + Token list)"
            using Some by (rule annotate_fresh_ok)
          with ne Some show ?thesis
            by (simp add: c r Doc_init_def)
        qed
      qed
    qed
  qed
qed

text \<open>A call that returns a document has run the analyzer with success; the document
  is made of the reported units, and only the outside world has changed.\<close>

lemma call_Inr_D:
  fixes self :: "('v, 'e, 'w) Tokenizer"
  assumes "call self text0 st = (Inr doc, st')"
  shows "\<exists>ml. reported_units self text0 (world st) = (Inr ml, world st') \<and>
              st' = st\<lparr>world := world st'\<rparr> \<and>
              doc = \<lparr>doc_vocab = vocab self,
                     tokens = map (token_of (key_fstring self)) ml\<rparr>"
proof (cases "reported_units self text0 (world st)")
  case (Pair r w2)
  show ?thesis
  proof (cases r)
    case (Inl e)
    with Pair assms show ?thesis by (simp add: call_eq)
  next
    case (Inr ml)
    with Pair assms show ?thesis
      by (auto simp: call_eq split: if_splits)
  qed
qed

lemma call_tokens:
  fixes self :: "('v, 'e, 'w) Tokenizer"
  assumes "call self text0 st = (Inr doc, st')"
    and "reported_units self text0 (world st) = (Inr ml, w2)"
  shows "tokens doc = map (token_of (key_fstring self)) ml"
  using call_Inr_D [OF assms(1)] assms(2) by auto

subsection \<open>The concrete adapter at work\<close>

lemma demo_reported:
  "reported_units demo_tokenizer ''Tokyo desu !?'' (world demo_state) =
     (Inr demo_units, [''Tokyodesu!?''])"
  by (simp add: reported_units_def preprocessed_def demo_tokenizer_def demo_state_def
        demo_preprocessor_def demo_strip_def demo_juman_def)

lemma demo_call:
  "call demo_tokenizer ''Tokyo desu !?'' demo_state =
     (Inr demo_doc, demo_state\<lparr>world := [''Tokyodesu!?'']\<rparr>)"
  by (simp add: call_eq demo_reported)
     (simp add: demo_units_def demo_tokenizer_def demo_state_def demo_doc_def)

subsection \<open>The returned document\<close>

text \<open>
  C1. For every input text, the document a call of the adapter returns has exactly one
  token per morphological unit the analyzer reported for the (possibly preprocessed)
  text, and the tokens stand in the order of the units: the document has as many tokens
  as there are units, and the texts of the tokens are the surfaces of the units, one by
  one.
\<close>

theorem call_one_token_per_unit:
  fixes self :: "('v, 'e, 'w) Tokenizer"
  assumes "call self text0 st = (Inr doc, st')"
  shows "\<exists>ml. reported_units self text0 (world st) = (Inr ml, world st') \<and>
              length (tokens doc) = length ml \<and>
              map token_text (tokens doc) = map midasi ml"
proof -
  from call_Inr_D [OF assms] obtain ml where
    r: "reported_units self text0 (world st) = (Inr ml, world st')" and
    d: "doc = \<lparr>doc_vocab = vocab self, tokens = map (token_of (key_fstring self)) ml\<rparr>"
    by blast
  from d have "length (tokens doc) = length ml"
    by simp
  moreover from d have "map token_text (tokens doc) = map midasi ml"
    by (simp add: token_of_def comp_def)
  ultimately show ?thesis
    using r by blast
qed

theorem call_one_token_per_unit_witness:
  "call demo_tokenizer ''Tokyo desu !?'' demo_state =
     (Inr demo_doc, demo_state\<lparr>world := [''Tokyodesu!?'']\<rparr>) \<and>
   reported_units demo_tokenizer ''Tokyo desu !?'' (world demo_state) =
     (Inr demo_units, [''Tokyodesu!?'']) \<and>
   length demo_units = 4 \<and> length (tokens demo_doc) = 4 \<and>
   map token_text (tokens demo_doc) = [''Tokyo'', ''desu'', ''!'', ''?'']"
  using call_one_token_per_unit [OF demo_call] demo_call demo_reported
  by (auto simp: demo_units_def)

text \<open>
  C2, as amended. For every token of the returned document, its lemma is the dictionary
  form (\<open>genkei\<close>) the analyzer reported for the corresponding unit when that form is a
  non-empty string, and the unit's surface form when the analyzer reported no dictionary
  form or the empty string.
\<close>

theorem call_lemma:
  fixes self :: "('v, 'e, 'w) Tokenizer"
  assumes "call self text0 st = (Inr doc, st')"
    and "reported_units self text0 (world st) = (Inr ml, w2)"
    and "i < length ml"
  shows "token_lemma (tokens doc ! i) =
           (case genkei (ml ! i) of
              None \<Rightarrow> midasi (ml ! i)
            | Some g \<Rightarrow> if g = [] then midasi (ml ! i) else g)"
  using call_tokens [OF assms(1,2)] assms(3)
  by (simp add: token_of_def genkei_or_def)

theorem call_lemma_witness:
  "call demo_tokenizer ''Tokyo desu !?'' demo_state =
     (Inr demo_doc, demo_state\<lparr>world := [''Tokyodesu!?'']\<rparr>) \<and>
   genkei (demo_units ! 1) = Some ''da'' \<and> midasi (demo_units ! 1) = ''desu'' \<and>
   token_lemma (tokens demo_doc ! 1) = ''da'' \<and>
   genkei (demo_units ! 2) = Some [] \<and> midasi (demo_units ! 2) = ''!'' \<and>
   token_lemma (tokens demo_doc ! 2) = ''!'' \<and>
   genkei (demo_units ! 3) = None \<and> midasi (demo_units ! 3) = ''?'' \<and>
   token_lemma (tokens demo_doc ! 3) = ''?''"
  using call_lemma [OF demo_call demo_reported, of 1]
    call_lemma [OF demo_call demo_reported, of 2]
    call_lemma [OF demo_call demo_reported, of 3] demo_call
  by (simp add: demo_units_def)

text \<open>
  C2 as stated, without the restriction to non-empty forms, fails: the third unit of the
  concrete sentence is reported with the empty string as its dictionary form, and the
  lemma of its token is the surface \<open>!\<close>, not the empty string.
\<close>

theorem call_lemma_counterexample:
  "call demo_tokenizer ''Tokyo desu !?'' demo_state =
     (Inr demo_doc, demo_state\<lparr>world := [''Tokyodesu!?'']\<rparr>) \<and>
   reported_units demo_tokenizer ''Tokyo desu !?'' (world demo_state) =
     (Inr demo_units, [''Tokyodesu!?'']) \<and>
   map genkei demo_units = [Some ''Tokyo'', Some ''da'', Some [], None] \<and>
   map token_lemma (tokens demo_doc) = [''Tokyo'', ''da'', ''!'', ''?''] \<and>
   genkei (demo_units ! 2) = Some [] \<and>
   token_lemma (tokens demo_doc ! 2) = ''!'' \<and>
   token_lemma (tokens demo_doc ! 2) \<noteq> []"
  using demo_call demo_reported
  by (simp add: demo_units_def demo_doc_def token_of_def genkei_or_def)

text \<open>
  C3. For every token of the returned document, its part-of-speech tag is exactly the
  major category (\<open>hinsi\<close>) of the corresponding unit, the separator \<open>/\<close> and the minor
  category (\<open>bunrui\<close>) of the unit, concatenated.
\<close>

theorem call_tag:
  fixes self :: "('v, 'e, 'w) Tokenizer"
  assumes "call self text0 st = (Inr doc, st')"
    and "reported_units self text0 (world st) = (Inr ml, w2)"
    and "i < length ml"
  shows "token_tag (tokens doc ! i) = hinsi (ml ! i) @ ''/'' @ bunrui (ml ! i)"
  using call_tokens [OF assms(1,2)] assms(3)
  by (simp add: token_of_def)

theorem call_tag_witness:
  "call demo_tokenizer ''Tokyo desu !?'' demo_state =
     (Inr demo_doc, demo_state\<lparr>world := [''Tokyodesu!?'']\<rparr>) \<and>
   token_tag (tokens demo_doc ! 0) = ''meishi/chimei'' \<and>
   token_tag (tokens demo_doc ! 1) = ''hanteishi/*''"
  using call_tag [OF demo_call demo_reported, of 0]
    call_tag [OF demo_call demo_reported, of 1] demo_call
  by (simp add: demo_units_def)

text \<open>
  C4. For every token of the returned document, the detail-string extension stored on
  the token is the analyzer's annotation string (\<open>fstring\<close>) of the corresponding unit,
  unaltered; reading the extension back gives that string.
\<close>

theorem call_fstring:
  fixes self :: "('v, 'e, 'w) Tokenizer"
  assumes "call self text0 st = (Inr doc, st')"
    and "reported_units self text0 (world st) = (Inr ml, w2)"
    and "i < length ml"
  shows "underscore (tokens doc ! i) (key_fstring self) = Some (PyStr (fstring (ml ! i))) \<and>
         underscore_get (token_extensions st') (key_fstring self) (tokens doc ! i) =
           Inr (PyStr (fstring (ml ! i)))"
proof -
  have t: "tokens doc ! i = token_of (key_fstring self) (ml ! i)"
    using call_tokens [OF assms(1,2)] assms(3) by simp
  have "ml \<noteq> []"
    using assms(3) by auto
  with assms(1,2) have "token_extensions st (key_fstring self) \<noteq> None"
    by (auto simp: call_eq split: if_splits)
  moreover from call_Inr_D [OF assms(1)] have "token_extensions st' = token_extensions st"
    by (metis state.select_convs(1) state.surjective state.update_convs(2))
  ultimately show ?thesis
    by (auto simp: t token_of_def underscore_get_def)
qed

theorem call_fstring_witness:
  "call demo_tokenizer ''Tokyo desu !?'' demo_state =
     (Inr demo_doc, demo_state\<lparr>world := [''Tokyodesu!?'']\<rparr>) \<and>
   fstring (demo_units ! 0) = ''<chimei>'' \<and>
   underscore (tokens demo_doc ! 0) ''juman_fstring'' = Some (PyStr ''<chimei>'') \<and>
   underscore_get (token_extensions demo_state) ''juman_fstring'' (tokens demo_doc ! 0) =
     Inr (PyStr ''<chimei>'')"
  using call_fstring [OF demo_call demo_reported, of 0] demo_call
  by (simp add: demo_units_def demo_tokenizer_def)

text \<open>
  C5. Every token of the returned document is marked as not followed by a space, so
  the token texts concatenated with no separator, and the text of the document, are the
  concatenation of the analyzer's surface strings.
\<close>

theorem call_no_spaces:
  fixes self :: "('v, 'e, 'w) Tokenizer"
  assumes "call self text0 st = (Inr doc, st')"
    and "reported_units self text0 (world st) = (Inr ml, w2)"
  shows "(\<forall>i<length (tokens doc). whitespace (tokens doc ! i) = False) \<and>
         concat (map token_text (tokens doc)) = concat (map midasi ml) \<and>
         Doc_text doc = concat (map midasi ml)"
  using call_tokens [OF assms]
  by (simp add: token_of_def Doc_text_def comp_def)

theorem call_no_spaces_witness:
  "call demo_tokenizer ''Tokyo desu !?'' demo_state =
     (Inr demo_doc, demo_state\<lparr>world := [''Tokyodesu!?'']\<rparr>) \<and>
   whitespace (tokens demo_doc ! 2) = False \<and>
   concat (map midasi demo_units) = ''Tokyodesu!?'' \<and>
   concat (map token_text (tokens demo_doc)) = ''Tokyodesu!?'' \<and>
   Doc_text demo_doc = ''Tokyodesu!?''"
  using call_no_spaces [OF demo_call demo_reported] demo_call
  by (simp add: demo_units_def demo_doc_def token_of_def Doc_text_def)

text \<open>
  C10. For every morphological unit whose dictionary form is the empty string (not
  absent), the lemma of the corresponding token is the surface form of the unit.
\<close>

theorem call_lemma_empty_genkei:
  fixes self :: "('v, 'e, 'w) Tokenizer"
  assumes "call self text0 st = (Inr doc, st')"
    and "reported_units self text0 (world st) = (Inr ml, w2)"
    and "i < length ml"
    and "genkei (ml ! i) = Some []"
  shows "token_lemma (tokens doc ! i) = midasi (ml ! i)"
  using call_tokens [OF assms(1,2)] assms(3,4)
  by (simp add: token_of_def genkei_or_def)

theorem call_lemma_empty_genkei_witness:
  "call demo_tokenizer ''Tokyo desu !?'' demo_state =
     (Inr demo_doc, demo_state\<lparr>world := [''Tokyodesu!?'']\<rparr>) \<and>
   genkei (demo_units ! 2) = Some [] \<and> midasi (demo_units ! 2) = ''!'' \<and>
   token_lemma (tokens demo_doc ! 2) = ''!''"
  using call_lemma_empty_genkei [OF demo_call demo_reported, of 2] demo_call
  by (simp add: demo_units_def)

subsection \<open>Construction\<close>

text \<open>Construction raises what the analyzer's constructor raises, and registers the key
  otherwise: with \<open>force\<close> set, registration never raises.\<close>

lemma Tokenizer_init_eq:
  "Tokenizer_init KEY_FSTRING Juman_new cls nlp juman_kwargs preprocessor' st =
     (case Juman_new (case juman_kwargs of None \<Rightarrow> [] | Some kw \<Rightarrow> kw) (world st) of
        (Inl e, w1) \<Rightarrow> (Inl e, st\<lparr>world := w1\<rparr>)
      | (Inr juman, w1) \<Rightarrow>
          (Inr \<lparr>vocab = (case nlp of Some n \<Rightarrow> nlp_vocab n | None \<Rightarrow> create_vocab cls None),
                tokenizer = juman, key_fstring = KEY_FSTRING, preprocessor = preprocessor'\<rparr>,
           \<lparr>token_extensions = (token_extensions st)(KEY_FSTRING \<mapsto> PyBool False),
            world = w1\<rparr>))"
  by (cases juman_kwargs; cases nlp)
     (auto simp: Tokenizer_init_def set_extension_def Let_def split: prod.splits sum.splits)




text \<open>
  C9. Constructing an adapter registers the detail-string attribute in the host's
  global registry of token extensions (with the default \<open>False\<close>), and constructing a
  second adapter then, whatever its arguments, leaves the registry as it was after the
  first construction.
\<close>

theorem init_registers_idempotent:
  assumes "Tokenizer_init KEY_FSTRING Juman_new cls nlp juman_kwargs preprocessor' st =
             (Inr self, st1)"
  shows "key_fstring self = KEY_FSTRING \<and>
         token_extensions st1 = (token_extensions st)(KEY_FSTRING \<mapsto> PyBool False) \<and>
         token_extensions st1 KEY_FSTRING = Some (PyBool False) \<and>
         token_extensions
           (snd (Tokenizer_init KEY_FSTRING Juman_new2 cls2 nlp2 juman_kwargs2 preprocessor2 st1))
           = token_extensions st1"
proof -
  have 1: "token_extensions st1 = (token_extensions st)(KEY_FSTRING \<mapsto> PyBool False)"
    and k: "key_fstring self = KEY_FSTRING"
    using assms by (auto simp: Tokenizer_init_eq split: prod.splits sum.splits)
  have "token_extensions
           (snd (Tokenizer_init KEY_FSTRING Juman_new2 cls2 nlp2 juman_kwargs2 preprocessor2 st1))
           = token_extensions st1"
    by (auto simp: Tokenizer_init_eq 1 split: prod.splits sum.splits)
  with 1 k show ?thesis by simp
qed

theorem init_registers_idempotent_witness:
  "Tokenizer_init ''juman_fstring'' demo_Juman_new \<lparr>create_vocab = (\<lambda>n. ())\<rparr> None None
     (Some demo_preprocessor) \<lparr>token_extensions = Map.empty, world = []\<rparr> =
     (Inr demo_tokenizer, demo_state) \<and>
   token_extensions demo_state ''juman_fstring'' = Some (PyBool False) \<and>
   token_extensions
     (snd (Tokenizer_init ''juman_fstring'' demo_Juman_new \<lparr>create_vocab = (\<lambda>n. ())\<rparr>
             (Some \<lparr>nlp_vocab = ()\<rparr>) (Some [(''command'', ''jumanpp'')]) None demo_state)) =
     token_extensions demo_state"
proof -
  have i: "Tokenizer_init ''juman_fstring'' demo_Juman_new \<lparr>create_vocab = (\<lambda>n. ())\<rparr> None None
     (Some demo_preprocessor) \<lparr>token_extensions = Map.empty, world = []\<rparr> =
     (Inr demo_tokenizer, demo_state)"
    by (simp add: Tokenizer_init_eq demo_Juman_new_def demo_tokenizer_def demo_state_def)
  show ?thesis
    using init_registers_idempotent [OF i, of demo_Juman_new "\<lparr>create_vocab = (\<lambda>n. ())\<rparr>"
        "Some \<lparr>nlp_vocab = ()\<rparr>" "Some [(''command'', ''jumanpp'')]" None] i
    by simp
qed

subsection \<open>Errors\<close>

text \<open>
  C8. When the preprocessing function raises during a call (it is invoked, so it is
  true), the call raises that same error (and the analyzer is not invoked); when the analyzer raises, the call raises that
  same error (after that one invocation); when the analyzer's constructor raises during
  construction, construction raises that same error (and registers nothing).
\<close>

theorem errors_propagate:
  fixes self :: "('v, 'e, 'w) Tokenizer"
  shows
  "(preprocessor self = Some p \<and> py_bool p \<and> py_call p text0 (world st) = (Inl e, w1) \<longrightarrow>
      call self text0 st = (Inl e, st\<lparr>world := w1\<rparr>)) \<and>
   (preprocessed self text0 (world st) = (Inr text1, w1) \<and>
    analysis (tokenizer self) text1 w1 = (Inl e, w2) \<longrightarrow>
      call self text0 st = (Inl e, st\<lparr>world := w2\<rparr>)) \<and>
   (Juman_new (case juman_kwargs of None \<Rightarrow> [] | Some kw \<Rightarrow> kw) (world st) = (Inl e, w1) \<longrightarrow>
      Tokenizer_init KEY_FSTRING Juman_new cls nlp juman_kwargs preprocessor' st =
        (Inl e, st\<lparr>world := w1\<rparr>))"
  by (simp add: call_eq reported_units_def preprocessed_def Tokenizer_init_eq)

theorem errors_propagate_witness:
  "call demo_tokenizer [] demo_state = (Inl (Raised ''empty text''), demo_state) \<and>
   call demo_tokenizer ''Kyoto desu'' demo_state =
     (Inl (Raised ''unknown sentence''), demo_state\<lparr>world := [''Kyotodesu'']\<rparr>) \<and>
   Tokenizer_init ''juman_fstring'' demo_Juman_new \<lparr>create_vocab = (\<lambda>n. ())\<rparr> None
     (Some [(''rcfile'', ''jumanrc'')]) None \<lparr>token_extensions = Map.empty, world = []\<rparr> =
     (Inl (Raised ''unexpected keyword argument''), \<lparr>token_extensions = Map.empty, world = []\<rparr>)"
proof -
  have 1: "call demo_tokenizer [] demo_state = (Inl (Raised ''empty text''), demo_state)"
    using errors_propagate [where self = demo_tokenizer
        and p = demo_preprocessor and ?text0.0 = "[]" and st = demo_state
        and e = "Raised ''empty text''" and ?w1.0 = "[]", THEN conjunct1]
    by (simp add: demo_tokenizer_def demo_preprocessor_def demo_strip_def demo_state_def)
  have 2: "call demo_tokenizer ''Kyoto desu'' demo_state =
     (Inl (Raised ''unknown sentence''), demo_state\<lparr>world := [''Kyotodesu'']\<rparr>)"
    using errors_propagate [where self = demo_tokenizer
        and ?text0.0 = "''Kyoto desu''" and st = demo_state
        and e = "Raised ''unknown sentence''" and ?text1.0 = "''Kyotodesu''"
        and ?w1.0 = "[]" and ?w2.0 = "[''Kyotodesu'']", THEN conjunct2, THEN conjunct1]
    by (simp add: demo_tokenizer_def demo_preprocessor_def demo_strip_def demo_state_def
          demo_juman_def preprocessed_def)
  have 3: "Tokenizer_init ''juman_fstring'' demo_Juman_new \<lparr>create_vocab = (\<lambda>n. ())\<rparr> None
     (Some [(''rcfile'', ''jumanrc'')]) None \<lparr>token_extensions = Map.empty, world = []\<rparr> =
     (Inl (Raised ''unexpected keyword argument''), \<lparr>token_extensions = Map.empty, world = []\<rparr>)"
    using errors_propagate [where st = "\<lparr>token_extensions = Map.empty, world = []\<rparr>"
        and e = "Raised ''unexpected keyword argument''" and ?w1.0 = "[]"
        and Juman_new = demo_Juman_new and juman_kwargs = "Some [(''rcfile'', ''jumanrc'')]"
        and KEY_FSTRING = "''juman_fstring''" and cls = "\<lparr>create_vocab = (\<lambda>n. ())\<rparr>"
        and nlp = None and preprocessor' = None, THEN conjunct2, THEN conjunct2]
    by (simp add: demo_Juman_new_def)
  from 1 2 3 show ?thesis by simp
qed

subsection \<open>Preprocessing\<close>




subsection \<open>Serialization\<close>

text \<open>
  C7. The pickle hook registered for the language variant returns the class with an
  empty argument tuple, so pickling and unpickling an instance calls the class on no
  arguments, whatever the instance was constructed with; the serialization fields the
  adapter declares are exactly the preprocessor and the analyzer's construction arguments.
\<close>

theorem pickle_drops_configuration:
  fixes inst :: "('v, 'e, 'w) Japanese" and inst' :: "('v, 'e, 'w) Japanese"
  shows "pickle_japanese inst = (Japanese_class, []) \<and>
         loads construct (dumps inst) = construct Japanese_class [] \<and>
         loads construct (dumps inst) = loads construct (dumps inst') \<and>
         serialization_fields = [''preprocessor'', ''juman_kwargs'']"
  by (simp add: pickle_japanese_def loads_def dumps_def serialization_fields_def)

end
